theory Spec2Isabelle
  imports Main
begin

section \<open>The voice client of oobabot (src/oobabot/voice_client.py)\<close>

text \<open>
  The class \<open>VoiceClient\<close> drives one voice connection: \<open>connect\<close> asks the gateway
  for a voice-state change and waits for two signals, the handlers
  \<open>on_voice_state_update\<close> and \<open>on_voice_server_update\<close> set them, the
  Discrivener transcriber reports through \<open>_handle_discrivener_output\<close>, and
  \<open>disconnect\<close> tears the connection down.

  The object is a record, every method a function from the object to the object after the
  call, paired with the exception the call raised, if any. The collaborators the class only
  calls (the gateway, the Discrivener process, the audio responder, the logger, the event
  loop) are fields that record the calls made on them, and an \<open>environment\<close> says
  which of their calls raise.
\<close>

subsection \<open>Channels and the guild\<close>

datatype channel_kind = VoiceChannel | StageChannel | TextChannel | CategoryChannel | ForumChannel

text \<open>\<open>isinstance(channel, discord.channel.VocalGuildChannel)\<close>: the voice and the stage channel.\<close>

fun is_vocal_guild_channel :: "channel_kind \<Rightarrow> bool" where
  "is_vocal_guild_channel VoiceChannel = True"
| "is_vocal_guild_channel StageChannel = True"
| "is_vocal_guild_channel _ = False"

record channel =
  chan_id :: int
  chan_kind :: channel_kind

record guild =
  guild_ident :: int
  guild_channels :: "(int \<times> channel) list"

text \<open>\<open>guild.get_channel(id)\<close>: the channel of that id, or \<open>None\<close>.\<close>

definition get_channel :: "guild \<Rightarrow> int \<Rightarrow> channel option" where
  "get_channel g i = map_of (guild_channels g) i"

subsection \<open>Errors, log lines, requests\<close>

datatype voice_client_message =
    AlreadyConnected    \<comment> \<open>"Already connected to a voice channel."\<close>
  | CouldNotConnect     \<comment> \<open>"Couldn't connect to voice channel within ...s"\<close>

datatype error =
    VoiceClientError voice_client_message
  | GatewayError            \<comment> \<open>raised by \<open>guild.change_voice_state\<close>\<close>
  | DiscrivenerError        \<comment> \<open>raised by \<open>Discrivener.stop\<close>\<close>
  | AudioResponderError     \<comment> \<open>raised by \<open>AudioResponder.stop\<close>\<close>
  | RuntimeError            \<comment> \<open>raised by \<open>asyncio.get_event_loop\<close>\<close>

datatype level = DEBUG | INFO | WARNING

type_synonym log_line = "level \<times> string"

text \<open>\<open>guild.change_voice_state(channel=..., self_deaf=..., self_mute=...)\<close>; the channel by its id.\<close>

datatype gateway_request = ChangeVoiceState "int option" bool bool

record run_call =
  run_channel_id :: int
  run_endpoint :: string
  run_guild_id :: int
  run_session_id :: "string option"
  run_user_id :: int
  run_token :: string

record discrivener =
  running :: bool
  run_calls :: "run_call list"
  stop_calls :: nat

record audio_responder =
  responding :: bool
  start_calls :: nat

datatype callback = CallDisconnect

subsection \<open>Messages of the gateway and of Discrivener\<close>

record guild_voice_state =
  vs_session_id :: string
  vs_channel_id :: "int option"

record voice_server_update =
  su_token :: "string option"
  su_guild_id :: int
  su_endpoint :: "string option"

datatype discrivener_message_type =
  CONNECT | RECONNECT | DISCONNECT | USER_JOIN | TRANSCRIBED_MESSAGE | OTHER_TYPE nat

record discrivener_message =
  msg_type :: discrivener_message_type
  is_transcribed_message :: bool    \<comment> \<open>\<open>isinstance(message, discrivener.TranscribedMessage)\<close>\<close>
  msg_text :: string

subsection \<open>The object\<close>

record voice_client =
  channel :: channel
  guild :: guild                          \<comment> \<open>\<open>self.channel.guild\<close>\<close>
  user_id :: int                          \<comment> \<open>\<open>self.user.id\<close>\<close>
  discrivener :: discrivener              \<comment> \<open>\<open>self._discrivener\<close>\<close>
  discrivener_connected :: bool
  handshaking :: bool
  oobabot_voice_connected :: bool
  potentially_reconnecting :: bool
  voice_state_complete :: bool            \<comment> \<open>the \<open>asyncio.Event\<close> is set\<close>
  voice_server_complete :: bool
  session_id :: "string option"           \<comment> \<open>\<open>None\<close> is \<open>discord.utils.MISSING\<close>\<close>
  responder :: audio_responder            \<comment> \<open>\<open>self._audio_responder\<close>\<close>
  transcript :: "discrivener_message list"
  gateway_requests :: "gateway_request list"
  scheduled :: "callback list"            \<comment> \<open>handed to \<open>loop.call_soon_threadsafe\<close>\<close>
  cleanups :: nat                         \<comment> \<open>calls of \<open>self.cleanup()\<close>\<close>
  logged :: "log_line list"

text \<open>
  \<open>asyncio.get_event_loop()\<close> gives the event loop of the calling thread, or raises
  \<open>RuntimeError\<close> when the thread has none. It never gives \<open>None\<close>.
\<close>

datatype event_loop = Loop | NoCurrentLoop

text \<open>
  What the collaborators do in one run: which gateway requests raise, whether stopping
  Discrivener or the audio responder raises (\<open>disconnect\<close> guards its teardown with
  \<open>try ... finally\<close> against them), and the event loop of the notification thread.
\<close>

record environment =
  gateway_raises :: "gateway_request \<Rightarrow> bool"
  stop_raises :: bool
  responder_stop_raises :: bool
  get_event_loop :: event_loop

type_synonym outcome = "voice_client \<times> error option"

definition returns :: "voice_client \<Rightarrow> outcome" where
  "returns s = (s, None)"

definition raises :: "error \<Rightarrow> voice_client \<Rightarrow> outcome" where
  "raises e s = (s, Some e)"

text \<open>Sequencing: the rest of the body runs only when the call before it returned.\<close>

definition and_then :: "outcome \<Rightarrow> (voice_client \<Rightarrow> outcome) \<Rightarrow> outcome" where
  "and_then r f = (case r of (s, None) \<Rightarrow> f s | (s, Some e) \<Rightarrow> (s, Some e))"

text \<open>\<open>try: ... finally: f()\<close>: \<open>f\<close> runs either way, and an exception of the body goes on.\<close>

definition try_finally :: "outcome \<Rightarrow> (voice_client \<Rightarrow> voice_client) \<Rightarrow> outcome" where
  "try_finally r f = (case r of (s, e) \<Rightarrow> (f s, e))"

definition log_msg :: "level \<Rightarrow> string \<Rightarrow> voice_client \<Rightarrow> voice_client" where
  "log_msg l m s = s\<lparr>logged := logged s @ [(l, m)]\<rparr>"

subsection \<open>The collaborators\<close>

text \<open>
  Modelled from the spec: \<open>guild.change_voice_state\<close> of the gateway library (section 6:
  the core sends voice-state-change requests, channel, self-deaf, self-mute, or none to
  leave; section 7: the leave request may fail). The request is recorded, and the call
  raises when the environment says so.
\<close>

definition change_voice_state :: "environment \<Rightarrow> gateway_request \<Rightarrow> voice_client \<Rightarrow> outcome" where
  "change_voice_state env req s =
     (let s' = s\<lparr>gateway_requests := gateway_requests s @ [req]\<rparr>
      in if gateway_raises env req then raises GatewayError s' else returns s')"

text \<open>
  Modelled from the spec: \<open>Discrivener.run\<close>, \<open>Discrivener.stop\<close> and
  \<open>Discrivener.is_running\<close> of oobabot/discrivener.py, which is not among the source
  files (section 6: the core calls run(channel id, endpoint, guild id, session id, user
  id, token) to start and stop() to end; section 4.2: the session reports itself alive).
  \<open>run\<close> starts the process with the arguments given; a \<open>stop\<close> that raises leaves
  the process as it was.
\<close>

definition discrivener_run :: "run_call \<Rightarrow> voice_client \<Rightarrow> outcome" where
  "discrivener_run c s =
     (let d = discrivener s
      in returns (s\<lparr>discrivener := d\<lparr>running := True, run_calls := run_calls d @ [c]\<rparr>\<rparr>))"

definition discrivener_stop :: "environment \<Rightarrow> voice_client \<Rightarrow> outcome" where
  "discrivener_stop env s =
     (let d = discrivener s in
      if stop_raises env then raises DiscrivenerError (s\<lparr>discrivener := d\<lparr>stop_calls := Suc (stop_calls d)\<rparr>\<rparr>)
      else returns (s\<lparr>discrivener := d\<lparr>running := False, stop_calls := Suc (stop_calls d)\<rparr>\<rparr>))"

definition is_running :: "discrivener \<Rightarrow> bool" where
  "is_running d = running d"

text \<open>
  Modelled from the spec: \<open>AudioResponder.start\<close> and \<open>AudioResponder.stop\<close> of
  oobabot/audio_responder.py, which is not among the source files (section 6: start()/stop()
  lifecycle hooks of the downstream sinks).
\<close>

definition audio_responder_start :: "voice_client \<Rightarrow> outcome" where
  "audio_responder_start s =
     (let a = responder s
      in returns (s\<lparr>responder := a\<lparr>responding := True, start_calls := Suc (start_calls a)\<rparr>\<rparr>))"

definition audio_responder_stop :: "environment \<Rightarrow> voice_client \<Rightarrow> outcome" where
  "audio_responder_stop env s =
     (if responder_stop_raises env then raises AudioResponderError s
      else returns (s\<lparr>responder := (responder s)\<lparr>responding := False\<rparr>\<rparr>))"

text \<open>
  Modelled from the spec: \<open>VoiceProtocol.cleanup\<close> of the gateway library, the release of
  the session's resources (section 4.2). It touches no field of the class; the call is counted.
\<close>

definition cleanup :: "voice_client \<Rightarrow> voice_client" where
  "cleanup s = s\<lparr>cleanups := Suc (cleanups s)\<rparr>"

subsection \<open>Strings\<close>

text \<open>
  Python's \<open>s.rpartition(sep)\<close> for a separator of one character: the part before the last
  separator, the separator, the part after it; two empty strings and \<open>s\<close> when \<open>s\<close> has no
  separator.
\<close>

definition rpartition :: "char \<Rightarrow> string \<Rightarrow> string \<times> string \<times> string" where
  "rpartition sep s =
     (let tail_rev = takeWhile (\<lambda>c. c \<noteq> sep) (rev s);
          rest = dropWhile (\<lambda>c. c \<noteq> sep) (rev s)
      in case rest of
           [] \<Rightarrow> ([], [], s)
         | _ # head_rev \<Rightarrow> (rev head_rev, [sep], rev tail_rev))"

definition startswith :: "string \<Rightarrow> string \<Rightarrow> bool" where
  "startswith s p = (take (length p) s = p)"

text \<open>Lines 166 to 169 of \<open>on_voice_server_update\<close>.\<close>

definition normalize_endpoint :: "string \<Rightarrow> string" where
  "normalize_endpoint endpoint =
     (let endpoint1 = fst (rpartition CHR '':'' endpoint)
      in if startswith endpoint1 ''wss://'' then drop 6 endpoint1 else endpoint1)"

subsection \<open>The methods\<close>

text \<open>
  \<open>is_connected\<close>. Its second test, \<open>self._discrivener is None\<close>, never holds:
  \<open>__init__\<close> assigns the Discrivener and nothing assigns the field again, so the
  field of the record is a Discrivener and not an option.
\<close>

definition is_connected :: "voice_client \<Rightarrow> bool" where
  "is_connected s =
     (if \<not> oobabot_voice_connected s then False
      else if \<not> is_running (discrivener s) then False
      else discrivener_connected s)"

definition voice_connect :: "environment \<Rightarrow> bool \<Rightarrow> bool \<Rightarrow> voice_client \<Rightarrow> outcome" where
  "voice_connect env self_deaf self_mute s =
     change_voice_state env (ChangeVoiceState (Some (chan_id (channel s))) self_deaf self_mute) s"

definition voice_disconnect :: "environment \<Rightarrow> voice_client \<Rightarrow> outcome" where
  "voice_disconnect env s =
     (let s1 = log_msg INFO ''The voice handshake is being terminated for Channel ID %s (Guild ID %s)'' s;
          s2 = s1\<lparr>oobabot_voice_connected := False\<rparr>
      in and_then (change_voice_state env (ChangeVoiceState None False False) s2) (\<lambda>s3.
         and_then (discrivener_stop env s3) (\<lambda>s4.
         audio_responder_stop env s4)))"

definition disconnect :: "environment \<Rightarrow> bool \<Rightarrow> voice_client \<Rightarrow> outcome" where
  "disconnect env force s =
     (if \<not> force \<and> \<not> is_connected s then returns s
      else try_finally (voice_disconnect env s) cleanup)"

definition on_voice_state_update :: "environment \<Rightarrow> guild_voice_state \<Rightarrow> voice_client \<Rightarrow> outcome" where
  "on_voice_state_update env data s =
     (let s1 = s\<lparr>session_id := Some (vs_session_id data)\<rparr>;
          channel_id = vs_channel_id data
      in if \<not> handshaking s1 \<or> potentially_reconnecting s1 then
           (let s2 = log_msg DEBUG ''Server-initiated voice state update for Channel ID %s (Guild ID %s)'' s1
            in case channel_id of
                 None \<Rightarrow> disconnect env False s2
               | Some cid \<Rightarrow>
                   (case get_channel (guild s2) cid of
                      None \<Rightarrow> returns (log_msg WARNING ''Channel ID %s not found in Guild ID %s'' s2)
                    | Some ch \<Rightarrow>
                        if \<not> is_vocal_guild_channel (chan_kind ch)
                        then returns (log_msg WARNING ''Channel ID %s not a VocalGuildChannel.'' s2)
                        else returns (s2\<lparr>channel := ch\<rparr>)))
         else
           returns ((log_msg DEBUG ''Voice state complete for Channel ID %s (Guild ID %s) during handshake'' s1)
                      \<lparr>voice_state_complete := True\<rparr>))"

definition on_voice_server_update :: "environment \<Rightarrow> voice_server_update \<Rightarrow> voice_client \<Rightarrow> outcome" where
  "on_voice_server_update env data s =
     (if voice_server_complete s
      then returns (log_msg WARNING ''Ignoring extraneous voice server update.'' s)
      else
        (let token = su_token data; guild_id = su_guild_id data; endpoint = su_endpoint data
         in if endpoint = None \<or> token = None
            then returns (log_msg WARNING
                   ''Awaiting endpoint... This requires waiting. If timeout occurred considering raising the timeout and reconnecting.'' s)
            else
              and_then (discrivener_run
                          \<lparr>run_channel_id = chan_id (channel s),
                           run_endpoint = normalize_endpoint (the endpoint),
                           run_guild_id = guild_id, run_session_id = session_id s,
                           run_user_id = user_id s, run_token = the token\<rparr> s) (\<lambda>s1.
              and_then (audio_responder_start s1) (\<lambda>s2.
              returns (s2\<lparr>voice_server_complete := True\<rparr>)))))"

text \<open>
  \<open>_handle_discrivener_output\<close>. \<open>loop.call_soon_threadsafe(self.disconnect)\<close> hands the
  method to the event loop: nothing of \<open>disconnect\<close> runs inside the handler. Without an
  event loop \<open>asyncio.get_event_loop()\<close> raises, after the two flags are written; the
  branch \<open>if loop is None\<close>, with its warning, is never taken.
\<close>

definition handle_discrivener_output :: "environment \<Rightarrow> discrivener_message \<Rightarrow> voice_client \<Rightarrow> outcome" where
  "handle_discrivener_output env message s =
     (if msg_type message = CONNECT \<or> msg_type message = RECONNECT then
        returns ((log_msg DEBUG ''discrivener messsage: %s'' s)
                   \<lparr>voice_state_complete := True, discrivener_connected := True\<rparr>)
      else if DISCONNECT = msg_type message then
        (let s1 = (log_msg DEBUG ''discrivener messsage: %s'' s)
                    \<lparr>voice_state_complete := True, discrivener_connected := False\<rparr>
         in case get_event_loop env of
              NoCurrentLoop \<Rightarrow> raises RuntimeError s1
            | Loop \<Rightarrow> returns (s1\<lparr>scheduled := scheduled s1 @ [CallDisconnect]\<rparr>))
      else if USER_JOIN = msg_type message then
        returns (log_msg DEBUG ''discrivener messsage: %s'' s)
      else if TRANSCRIBED_MESSAGE = msg_type message then
        (if \<not> is_transcribed_message message
         then returns (log_msg WARNING ''Transcribed message type but not TranscribedMessage'' s)
         else returns (s\<lparr>transcript := transcript s @ [message]\<rparr>))
      else returns (log_msg WARNING ''Unknown discrivener message type: %s'' s))"

subsection \<open>The handshake wait\<close>

text \<open>
  While \<open>connect\<close> is suspended in \<open>sane_wait_for\<close>, the gateway and Discrivener deliver
  their messages to the handlers. An exception of a handler ends that handler, in the task
  that dispatched it, and never reaches \<open>connect\<close>: the object goes on as the handler
  left it.
\<close>

datatype event =
    VoiceStateUpdate guild_voice_state
  | VoiceServerUpdate voice_server_update
  | DiscrivenerOutput discrivener_message

fun deliver :: "environment \<Rightarrow> event \<Rightarrow> voice_client \<Rightarrow> voice_client" where
  "deliver env (VoiceStateUpdate d) s = fst (on_voice_state_update env d s)"
| "deliver env (VoiceServerUpdate d) s = fst (on_voice_server_update env d s)"
| "deliver env (DiscrivenerOutput m) s = fst (handle_discrivener_output env m s)"

text \<open>
  \<open>discord.utils.sane_wait_for([state.wait(), server.wait()], timeout)\<close>, given the events
  that arrive before the timeout, in their order: it returns (\<open>True\<close>) as soon as both
  signals are set, and raises \<open>asyncio.TimeoutError\<close> (\<open>False\<close>) when the events run out
  first.
\<close>

fun sane_wait_for :: "environment \<Rightarrow> event list \<Rightarrow> voice_client \<Rightarrow> voice_client \<times> bool" where
  "sane_wait_for env [] s = (s, voice_state_complete s \<and> voice_server_complete s)"
| "sane_wait_for env (e # es) s =
     (if voice_state_complete s \<and> voice_server_complete s then (s, True)
      else sane_wait_for env es (deliver env e s))"

text \<open>
  \<open>connect\<close>. The \<open>timeout\<close> of the source is the window of the wait: \<open>arrivals\<close>
  are the events delivered before it elapses.
\<close>

text \<open>The handlers on the events of a run, one after the other.\<close>

fun deliveries :: "environment \<Rightarrow> event list \<Rightarrow> voice_client \<Rightarrow> voice_client" where
  "deliveries env [] s = s"
| "deliveries env (e # es) s = deliveries env es (deliver env e s)"

definition connect ::
  "environment \<Rightarrow> bool \<Rightarrow> bool \<Rightarrow> bool \<Rightarrow> event list \<Rightarrow> voice_client \<Rightarrow> outcome" where
  "connect env reconnect self_deaf self_mute arrivals s =
     (let s1 = log_msg INFO ''Connecting to voice...'' s
      in if is_connected s1 then raises (VoiceClientError AlreadyConnected) s1
         else
           (let s2 = s1\<lparr>voice_state_complete := False, voice_server_complete := False\<rparr>;
                s3 = s2\<lparr>handshaking := True\<rparr>;
                s4 = log_msg INFO ''Starting voice handshake...'' s3
            in and_then (voice_connect env self_deaf self_mute s4) (\<lambda>s5.
                 case sane_wait_for env arrivals s5 of
                   (s6, False) \<Rightarrow>
                     and_then (disconnect env True s6) (raises (VoiceClientError CouldNotConnect))
                 | (s6, True) \<Rightarrow>
                     (let s7 = s6\<lparr>oobabot_voice_connected := True\<rparr>;
                          s8 = s7\<lparr>voice_state_complete := False, voice_server_complete := False\<rparr>;
                          s9 = log_msg INFO ''Voice handshake complete.'' s8
                      in returns (s9\<lparr>handshaking := False\<rparr>)))))"

definition potential_reconnect :: "voice_client \<Rightarrow> outcome" where
  "potential_reconnect s =
     returns (log_msg WARNING ''voice_client::potential_reconnect: not implemented'' s)"

definition move_to :: "environment \<Rightarrow> int option \<Rightarrow> voice_client \<Rightarrow> outcome" where
  "move_to env ch s =
     change_voice_state env (ChangeVoiceState ch False False)
       (log_msg WARNING ''voice_client::move_to: not implemented'' s)"

text \<open>
  The object when \<open>connect\<close> reaches \<open>sane_wait_for\<close>: both signals cleared,
  \<open>_handshaking\<close> set, the join request sent.
\<close>

definition at_wait :: "bool \<Rightarrow> bool \<Rightarrow> voice_client \<Rightarrow> voice_client" where
  "at_wait self_deaf self_mute s =
     (log_msg INFO ''Starting voice handshake...''
        ((log_msg INFO ''Connecting to voice...'' s)
           \<lparr>voice_state_complete := False, voice_server_complete := False, handshaking := True\<rparr>))
       \<lparr>gateway_requests := gateway_requests s @ [ChangeVoiceState (Some (chan_id (channel s))) self_deaf self_mute]\<rparr>"

subsection \<open>Objects and environments to run the methods on\<close>

text \<open>\<open>__init__\<close>: the object a channel of a guild gives.\<close>

definition init :: "channel \<Rightarrow> guild \<Rightarrow> int \<Rightarrow> voice_client" where
  "init ch g uid =
     \<lparr>channel = ch, guild = g, user_id = uid,
      discrivener = \<lparr>running = False, run_calls = [], stop_calls = 0\<rparr>,
      discrivener_connected = False, handshaking = False, oobabot_voice_connected = False,
      potentially_reconnecting = False, voice_state_complete = False,
      voice_server_complete = False, session_id = None,
      responder = \<lparr>responding = False, start_calls = 0\<rparr>,
      transcript = [], gateway_requests = [], scheduled = [], cleanups = 0, logged = []\<rparr>"

definition lobby :: channel where
  "lobby = \<lparr>chan_id = 10, chan_kind = VoiceChannel\<rparr>"

definition lounge :: channel where
  "lounge = \<lparr>chan_id = 11, chan_kind = VoiceChannel\<rparr>"

definition general :: channel where
  "general = \<lparr>chan_id = 20, chan_kind = TextChannel\<rparr>"

definition home_guild :: guild where
  "home_guild = \<lparr>guild_ident = 1, guild_channels = [(10, lobby), (11, lounge), (20, general)]\<rparr>"

definition new_client :: voice_client where
  "new_client = init lobby home_guild 7"

text \<open>A client in its handshake, and one whose handshake is over and whose transcriber is up.\<close>

definition handshaking_client :: voice_client where
  "handshaking_client = new_client\<lparr>handshaking := True\<rparr>"

definition connected_client :: voice_client where
  "connected_client =
     new_client\<lparr>oobabot_voice_connected := True, discrivener_connected := True,
                session_id := Some ''abc'',
                discrivener := \<lparr>running = True, run_calls = [], stop_calls = 0\<rparr>,
                responder := \<lparr>responding = True, start_calls = 1\<rparr>\<rparr>"

definition leave_request :: gateway_request where
  "leave_request = ChangeVoiceState None False False"

definition calm :: environment where
  "calm = \<lparr>gateway_raises = (\<lambda>r. False), stop_raises = False,
           responder_stop_raises = False, get_event_loop = Loop\<rparr>"

definition leave_fails :: environment where
  "leave_fails = calm\<lparr>gateway_raises := (\<lambda>r. r = leave_request)\<rparr>"

text \<open>Gateway and Discrivener messages for the runs below.\<close>

definition to_lounge :: guild_voice_state where
  "to_lounge = \<lparr>vs_session_id = ''xyz'', vs_channel_id = Some 11\<rparr>"

definition to_nowhere :: guild_voice_state where
  "to_nowhere = \<lparr>vs_session_id = ''xyz'', vs_channel_id = Some 99\<rparr>"

definition to_general :: guild_voice_state where
  "to_general = \<lparr>vs_session_id = ''xyz'', vs_channel_id = Some 20\<rparr>"

definition server_known :: voice_server_update where
  "server_known = \<lparr>su_token = Some ''tok'', su_guild_id = 1,
                    su_endpoint = Some ''wss://region123.example.com:443''\<rparr>"

definition token_missing :: voice_server_update where
  "token_missing = \<lparr>su_token = None, su_guild_id = 1,
                     su_endpoint = Some ''wss://region123.example.com:443''\<rparr>"

definition went_away :: discrivener_message where
  "went_away = \<lparr>msg_type = DISCONNECT, is_transcribed_message = False, msg_text = []\<rparr>"

section \<open>Properties\<close>

lemmas outcome_defs = returns_def raises_def and_then_def try_finally_def log_msg_def
lemmas collab_defs = change_voice_state_def discrivener_run_def discrivener_stop_def
  audio_responder_start_def audio_responder_stop_def cleanup_def is_running_def
lemmas example_defs = init_def lobby_def lounge_def general_def home_guild_def new_client_def
  handshaking_client_def connected_client_def leave_request_def calm_def leave_fails_def
  to_lounge_def to_nowhere_def to_general_def server_known_def token_missing_def went_away_def

subsection \<open>is_connected\<close>

lemma is_connected_conj:
  "is_connected s =
     (oobabot_voice_connected s \<and> running (discrivener s) \<and> discrivener_connected s)"
  by (auto simp: is_connected_def is_running_def)

text \<open>
  Claim C3. \<open>is_connected()\<close> is true exactly when the three conditions hold together:
  the gateway side marked the session connected (\<open>_oobabot_voice_connected\<close>), the Discrivener
  process reports itself running, and the flag the Discrivener notifications keep
  (\<open>_discrivener_connected\<close>) is set. From any object, making one of the three false makes
  \<open>is_connected()\<close> false.
\<close>

theorem is_connected_three_way:
  "is_connected s =
     (oobabot_voice_connected s \<and> is_running (discrivener s) \<and> discrivener_connected s)
   \<and> \<not> is_connected (s\<lparr>oobabot_voice_connected := False\<rparr>)
   \<and> \<not> is_connected (s\<lparr>discrivener := (discrivener s)\<lparr>running := False\<rparr>\<rparr>)
   \<and> \<not> is_connected (s\<lparr>discrivener_connected := False\<rparr>)"
  by (auto simp: is_connected_def is_running_def)

lemma connected_client_connected: "is_connected connected_client"
  by (simp add: is_connected_def is_running_def example_defs)

lemma new_client_idle: "\<not> is_connected new_client"
  by (simp add: is_connected_def is_running_def example_defs)

text \<open>On the connected client: it is connected, and each of the three flips disconnects it.\<close>

theorem is_connected_three_way_witness:
  "is_connected connected_client
   \<and> \<not> is_connected (connected_client\<lparr>oobabot_voice_connected := False\<rparr>)
   \<and> \<not> is_connected (connected_client\<lparr>discrivener := (discrivener connected_client)\<lparr>running := False\<rparr>\<rparr>)
   \<and> \<not> is_connected (connected_client\<lparr>discrivener_connected := False\<rparr>)"
  using is_connected_three_way [of connected_client] connected_client_connected
  by blast

subsection \<open>connect on a connected client\<close>

text \<open>
  Claim C6. On an object for which \<open>is_connected()\<close> holds, \<open>connect\<close> raises the
  already-connected \<open>VoiceClientError\<close>; the only thing it did before is log one line: no
  request went to the gateway and both handshake signals are as they were.
\<close>

theorem connect_already_connected:
  assumes "is_connected s"
  shows "connect env reconnect self_deaf self_mute arrivals s =
           raises (VoiceClientError AlreadyConnected) (s\<lparr>logged := logged s @ [(INFO, ''Connecting to voice...'')]\<rparr>)
         \<and> gateway_requests (fst (connect env reconnect self_deaf self_mute arrivals s)) = gateway_requests s
         \<and> voice_state_complete (fst (connect env reconnect self_deaf self_mute arrivals s)) = voice_state_complete s
         \<and> voice_server_complete (fst (connect env reconnect self_deaf self_mute arrivals s)) = voice_server_complete s"
proof -
  have "is_connected (log_msg INFO ''Connecting to voice...'' s)"
    using assms by (simp add: is_connected_conj log_msg_def)
  then have "connect env reconnect self_deaf self_mute arrivals s =
           raises (VoiceClientError AlreadyConnected) (log_msg INFO ''Connecting to voice...'' s)"
    by (simp add: connect_def Let_def)
  then show ?thesis by (simp add: raises_def log_msg_def)
qed

text \<open>On the connected client.\<close>

theorem connect_already_connected_witness:
  "is_connected connected_client
   \<and> snd (connect calm False False False [] connected_client) = Some (VoiceClientError AlreadyConnected)
   \<and> gateway_requests (fst (connect calm False False False [] connected_client)) = []
   \<and> \<not> voice_state_complete (fst (connect calm False False False [] connected_client))
   \<and> \<not> voice_server_complete (fst (connect calm False False False [] connected_client))"
proof -
  note t = connect_already_connected [OF connected_client_connected, of calm False False False "[]"]
  have g: "gateway_requests connected_client = []"
    "\<not> voice_state_complete connected_client" "\<not> voice_server_complete connected_client"
    by (simp_all add: example_defs)
  have e: "snd (connect calm False False False [] connected_client) = Some (VoiceClientError AlreadyConnected)"
    using t by (simp add: raises_def)
  from t g e connected_client_connected show ?thesis by metis
qed

subsection \<open>disconnect\<close>

lemma voice_disconnect_flag:
  "\<not> oobabot_voice_connected (fst (voice_disconnect env s))"
  by (simp add: voice_disconnect_def Let_def outcome_defs collab_defs)

lemma voice_disconnect_leave_raises:
  "gateway_raises env leave_request \<Longrightarrow>
     voice_disconnect env s =
       raises GatewayError
         (s\<lparr>logged := logged s @ [(INFO, ''The voice handshake is being terminated for Channel ID %s (Guild ID %s)'')],
            oobabot_voice_connected := False,
            gateway_requests := gateway_requests s @ [leave_request]\<rparr>)"
  by (simp add: voice_disconnect_def Let_def outcome_defs collab_defs leave_request_def)

lemma voice_disconnect_requests:
  "gateway_requests (fst (voice_disconnect env s)) = gateway_requests s @ [leave_request]"
  by (simp add: voice_disconnect_def Let_def outcome_defs collab_defs leave_request_def)

lemma voice_disconnect_cleanups:
  "cleanups (fst (voice_disconnect env s)) = cleanups s"
  by (simp add: voice_disconnect_def Let_def outcome_defs collab_defs)

lemma voice_disconnect_session_channel:
  "session_id (fst (voice_disconnect env s)) = session_id s"
  "channel (fst (voice_disconnect env s)) = channel s"
  by (simp_all add: voice_disconnect_def Let_def outcome_defs collab_defs)

lemma voice_disconnect_all_return:
  "\<not> gateway_raises env leave_request \<Longrightarrow> \<not> stop_raises env \<Longrightarrow> \<not> responder_stop_raises env \<Longrightarrow>
     snd (voice_disconnect env s) = None
     \<and> \<not> running (discrivener (fst (voice_disconnect env s)))
     \<and> \<not> responding (responder (fst (voice_disconnect env s)))"
  by (simp add: voice_disconnect_def Let_def outcome_defs collab_defs leave_request_def)

lemma disconnect_runs:
  "force \<or> is_connected s \<Longrightarrow>
     disconnect env force s = (cleanup (fst (voice_disconnect env s)), snd (voice_disconnect env s))"
  by (auto simp: disconnect_def try_finally_def split: prod.splits)

lemma disconnect_skips:
  "\<not> force \<Longrightarrow> \<not> is_connected s \<Longrightarrow> disconnect env force s = returns s"
  by (simp add: disconnect_def)

lemma disconnect_session_channel:
  "session_id (fst (disconnect env force s)) = session_id s"
  "channel (fst (disconnect env force s)) = channel s"
  by (cases "force \<or> is_connected s";
      simp add: disconnect_runs disconnect_skips voice_disconnect_session_channel cleanup_def returns_def)+

text \<open>
  Claim C10. \<open>voice_disconnect\<close> clears \<open>_oobabot_voice_connected\<close> before it asks the
  gateway to leave: whatever raises afterwards, the flag is false in the object it leaves,
  and when the leave request itself raises, the object at that moment already has the flag
  cleared and the request recorded. So after \<open>disconnect\<close>, called on a connected client or
  with \<open>force\<close>, \<open>is_connected()\<close> is false in every environment.
\<close>

theorem disconnect_leaves_not_connected:
  "\<not> oobabot_voice_connected (fst (voice_disconnect env s))
   \<and> (gateway_raises env leave_request \<longrightarrow>
        voice_disconnect env s =
          raises GatewayError
            (s\<lparr>logged := logged s @ [(INFO, ''The voice handshake is being terminated for Channel ID %s (Guild ID %s)'')],
               oobabot_voice_connected := False,
               gateway_requests := gateway_requests s @ [leave_request]\<rparr>))
   \<and> (force \<or> is_connected s \<longrightarrow> \<not> is_connected (fst (disconnect env force s)))"
proof -
  have "\<not> is_connected (fst (disconnect env force s))" if "force \<or> is_connected s"
    using that voice_disconnect_flag [of env s]
    by (simp add: disconnect_runs is_connected_conj cleanup_def)
  then show ?thesis
    using voice_disconnect_flag voice_disconnect_leave_raises by blast
qed

lemma leave_fails_on_leave: "gateway_raises leave_fails leave_request"
  by (simp add: example_defs)

text \<open>With a gateway whose leave request raises: a connected client, and a forced disconnect.\<close>

theorem disconnect_leaves_not_connected_witness:
  "is_connected connected_client
   \<and> gateway_raises leave_fails leave_request
   \<and> snd (voice_disconnect leave_fails connected_client) = Some GatewayError
   \<and> \<not> is_connected (fst (disconnect leave_fails False connected_client))
   \<and> \<not> is_connected (fst (disconnect leave_fails True new_client))"
proof -
  note a = disconnect_leaves_not_connected [of leave_fails connected_client False]
  note b = disconnect_leaves_not_connected [of leave_fails new_client True]
  have "snd (voice_disconnect leave_fails connected_client) = Some GatewayError"
    using a leave_fails_on_leave by (simp add: raises_def)
  then show ?thesis
    using a b connected_client_connected leave_fails_on_leave by blast
qed

text \<open>
  Claim C5, as amended. \<open>disconnect(force)\<close> returns at once, changing nothing, when the
  client is not connected and \<open>force\<close> is false. Otherwise it asks the gateway to leave and
  \<open>cleanup()\<close> runs exactly once, whatever raises. When the leave request raises, the
  error goes on to the caller, nothing is logged about it, and neither Discrivener nor the
  audio responder is stopped. When no call raises, \<open>disconnect\<close> returns with Discrivener
  and the audio responder stopped.
\<close>

theorem disconnect_teardown:
  "(\<not> force \<and> \<not> is_connected s \<longrightarrow> disconnect env force s = returns s)
   \<and> (force \<or> is_connected s \<longrightarrow>
        gateway_requests (fst (disconnect env force s)) = gateway_requests s @ [leave_request]
        \<and> cleanups (fst (disconnect env force s)) = Suc (cleanups s)
        \<and> (gateway_raises env leave_request \<longrightarrow>
              snd (disconnect env force s) = Some GatewayError
              \<and> discrivener (fst (disconnect env force s)) = discrivener s
              \<and> responder (fst (disconnect env force s)) = responder s
              \<and> logged (fst (disconnect env force s)) =
                  logged s @ [(INFO, ''The voice handshake is being terminated for Channel ID %s (Guild ID %s)'')])
        \<and> (\<not> gateway_raises env leave_request \<and> \<not> stop_raises env \<and> \<not> responder_stop_raises env \<longrightarrow>
              snd (disconnect env force s) = None
              \<and> \<not> running (discrivener (fst (disconnect env force s)))
              \<and> \<not> responding (responder (fst (disconnect env force s)))))"
proof -
  have skip: "disconnect env force s = returns s" if "\<not> force \<and> \<not> is_connected s"
    using that by (simp add: disconnect_skips)
  have run: "gateway_requests (fst (disconnect env force s)) = gateway_requests s @ [leave_request]
        \<and> cleanups (fst (disconnect env force s)) = Suc (cleanups s)"
    if "force \<or> is_connected s"
    using that by (simp add: disconnect_runs cleanup_def voice_disconnect_requests voice_disconnect_cleanups)
  have fail: "snd (disconnect env force s) = Some GatewayError
              \<and> discrivener (fst (disconnect env force s)) = discrivener s
              \<and> responder (fst (disconnect env force s)) = responder s
              \<and> logged (fst (disconnect env force s)) =
                  logged s @ [(INFO, ''The voice handshake is being terminated for Channel ID %s (Guild ID %s)'')]"
    if "force \<or> is_connected s" "gateway_raises env leave_request"
    using that by (simp add: disconnect_runs cleanup_def voice_disconnect_leave_raises raises_def)
  have ok: "snd (disconnect env force s) = None
              \<and> \<not> running (discrivener (fst (disconnect env force s)))
              \<and> \<not> responding (responder (fst (disconnect env force s)))"
    if "force \<or> is_connected s"
      "\<not> gateway_raises env leave_request \<and> \<not> stop_raises env \<and> \<not> responder_stop_raises env"
    using that voice_disconnect_all_return [of env s]
    by (simp add: disconnect_runs cleanup_def)
  from skip run fail ok show ?thesis by blast
qed


text \<open>
  Claim C5 as stated fails: with a gateway whose leave request raises, \<open>disconnect\<close> on the
  connected client raises the gateway's error to its caller, logs nothing but the line that
  announces the teardown, and leaves Discrivener running and the audio responder started.
\<close>

theorem disconnect_propagates_leave_failure:
  "is_connected connected_client
   \<and> snd (disconnect leave_fails False connected_client) = Some GatewayError
   \<and> running (discrivener (fst (disconnect leave_fails False connected_client)))
   \<and> responding (responder (fst (disconnect leave_fails False connected_client)))
   \<and> logged (fst (disconnect leave_fails False connected_client)) =
       [(INFO, ''The voice handshake is being terminated for Channel ID %s (Guild ID %s)'')]"
proof -
  have r: "running (discrivener connected_client)" "responding (responder connected_client)"
    "logged connected_client = []"
    by (simp_all add: example_defs)
  show ?thesis
    using r connected_client_connected leave_fails_on_leave
    by (simp add: disconnect_runs cleanup_def voice_disconnect_leave_raises raises_def)
qed

text \<open>The amended claim on the connected and on the new client.\<close>

theorem disconnect_teardown_witness:
  "is_connected connected_client
   \<and> snd (disconnect leave_fails False connected_client) = Some GatewayError
   \<and> cleanups (fst (disconnect leave_fails False connected_client)) = 1
   \<and> disconnect calm False new_client = returns new_client
   \<and> snd (disconnect calm True new_client) = None
   \<and> cleanups (fst (disconnect calm True new_client)) = 1
   \<and> \<not> running (discrivener (fst (disconnect calm False connected_client)))"
proof -
  note a = disconnect_teardown [of False connected_client leave_fails]
  note b = disconnect_teardown [of False new_client calm]
  note c = disconnect_teardown [of True new_client calm]
  note d = disconnect_teardown [of False connected_client calm]
  have q: "\<not> gateway_raises calm leave_request" "\<not> stop_raises calm" "\<not> responder_stop_raises calm"
    "cleanups connected_client = 0" "cleanups new_client = 0"
    by (simp_all add: example_defs)
  from a b c d q connected_client_connected new_client_idle leave_fails_on_leave
  show ?thesis by simp
qed

subsection \<open>The handshake of connect\<close>

lemma is_connected_log_msg: "is_connected (log_msg l m s) = is_connected s"
  by (simp add: is_connected_conj log_msg_def)

lemma connect_reaches_wait:
  assumes "\<not> is_connected s"
    and "\<not> gateway_raises env (ChangeVoiceState (Some (chan_id (channel s))) self_deaf self_mute)"
  shows "connect env reconnect self_deaf self_mute arrivals s =
     (case sane_wait_for env arrivals (at_wait self_deaf self_mute s) of
        (s6, False) \<Rightarrow> and_then (disconnect env True s6) (raises (VoiceClientError CouldNotConnect))
      | (s6, True) \<Rightarrow>
          returns (s6\<lparr>oobabot_voice_connected := True, voice_state_complete := False,
                      voice_server_complete := False,
                      logged := logged s6 @ [(INFO, ''Voice handshake complete.'')],
                      handshaking := False\<rparr>))"
proof -
  have n: "\<not> is_connected (log_msg INFO ''Connecting to voice...'' s)"
    using assms(1) by (simp add: is_connected_log_msg)
  have v: "voice_connect env self_deaf self_mute
             (log_msg INFO ''Starting voice handshake...''
               ((log_msg INFO ''Connecting to voice...'' s)
                  \<lparr>voice_state_complete := False, voice_server_complete := False, handshaking := True\<rparr>))
           = returns (at_wait self_deaf self_mute s)"
    using assms(2)
    by (simp add: voice_connect_def change_voice_state_def at_wait_def returns_def log_msg_def)
  show ?thesis
    unfolding connect_def Let_def
    using n v
    by (simp add: and_then_def returns_def raises_def log_msg_def split: prod.splits bool.splits)
qed

lemma connect_join_raises:
  assumes "\<not> is_connected s"
    and "gateway_raises env (ChangeVoiceState (Some (chan_id (channel s))) self_deaf self_mute)"
  shows "snd (connect env reconnect self_deaf self_mute arrivals s) = Some GatewayError"
proof -
  have n: "\<not> is_connected (log_msg INFO ''Connecting to voice...'' s)"
    using assms(1) by (simp add: is_connected_log_msg)
  show ?thesis
    unfolding connect_def Let_def
    using n assms(2)
    by (simp add: voice_connect_def change_voice_state_def raises_def and_then_def log_msg_def)
qed

lemma connect_connected_raises:
  assumes "is_connected s"
  shows "snd (connect env reconnect self_deaf self_mute arrivals s) = Some (VoiceClientError AlreadyConnected)"
proof -
  have n: "is_connected (log_msg INFO ''Connecting to voice...'' s)"
    using assms by (simp add: is_connected_log_msg)
  show ?thesis
    unfolding connect_def Let_def using n by (simp add: raises_def)
qed

text \<open>
  Claim C1, as amended. When \<open>connect\<close> reaches the wait and the wait times out,
  \<open>connect\<close> calls \<open>disconnect(force=True)\<close> on the object the wait left; when that
  returns, \<open>connect\<close> raises the could-not-connect \<open>VoiceClientError\<close>, and when the teardown
  raises, its error is the one the caller gets. When both signals are set before the
  timeout, \<open>connect\<close> does not raise the could-not-connect error.
\<close>

theorem connect_handshake_timeout:
  "(\<not> is_connected s
      \<and> \<not> gateway_raises env (ChangeVoiceState (Some (chan_id (channel s))) self_deaf self_mute)
      \<and> \<not> snd (sane_wait_for env arrivals (at_wait self_deaf self_mute s)) \<longrightarrow>
      fst (connect env reconnect self_deaf self_mute arrivals s) =
        fst (disconnect env True (fst (sane_wait_for env arrivals (at_wait self_deaf self_mute s))))
      \<and> snd (connect env reconnect self_deaf self_mute arrivals s) =
        (case snd (disconnect env True (fst (sane_wait_for env arrivals (at_wait self_deaf self_mute s)))) of
           None \<Rightarrow> Some (VoiceClientError CouldNotConnect)
         | Some e \<Rightarrow> Some e))
   \<and> (snd (sane_wait_for env arrivals (at_wait self_deaf self_mute s)) \<longrightarrow>
        snd (connect env reconnect self_deaf self_mute arrivals s) \<noteq> Some (VoiceClientError CouldNotConnect))"
proof -
  let ?join = "ChangeVoiceState (Some (chan_id (channel s))) self_deaf self_mute"
  let ?w = "sane_wait_for env arrivals (at_wait self_deaf self_mute s)"
  let ?c = "connect env reconnect self_deaf self_mute arrivals s"
  have timeout: "fst ?c = fst (disconnect env True (fst ?w))
      \<and> snd ?c = (case snd (disconnect env True (fst ?w)) of
                    None \<Rightarrow> Some (VoiceClientError CouldNotConnect) | Some e \<Rightarrow> Some e)"
    if nc: "\<not> is_connected s" and nj: "\<not> gateway_raises env ?join" and nw: "\<not> snd ?w"
  proof -
    obtain s6 where w: "?w = (s6, False)"
      using nw by (cases ?w) auto
    obtain s7 e where d: "disconnect env True s6 = (s7, e)"
      by (cases "disconnect env True s6") auto
    show ?thesis
      using w d
      by (cases e) (simp_all add: connect_reaches_wait [OF nc nj] and_then_def raises_def)
  qed
  have passed: "snd ?c \<noteq> Some (VoiceClientError CouldNotConnect)" if sw: "snd ?w"
  proof (cases "is_connected s")
    case True
    then show ?thesis by (simp add: connect_connected_raises)
  next
    case False
    show ?thesis
    proof (cases "gateway_raises env ?join")
      case True
      with False show ?thesis by (simp add: connect_join_raises)
    next
      case nj: False
      obtain s6 where w: "?w = (s6, True)"
        using sw by (cases ?w) auto
      show ?thesis
        using w by (simp add: connect_reaches_wait [OF False nj] returns_def)
    qed
  qed
  from timeout passed show ?thesis by blast
qed

lemma calm_never_raises: "\<not> gateway_raises calm r" "\<not> stop_raises calm" "\<not> responder_stop_raises calm"
  by (simp_all add: example_defs)

lemma leave_fails_join: "\<not> gateway_raises leave_fails (ChangeVoiceState (Some c) d m)"
  by (simp add: example_defs)

lemma no_arrivals_timeout: "sane_wait_for env [] (at_wait d m s) = (at_wait d m s, False)"
  by (simp add: at_wait_def log_msg_def)

text \<open>No event arrives, nothing raises: the handshake of the new client times out.\<close>

theorem connect_handshake_timeout_witness:
  "\<not> is_connected new_client
   \<and> \<not> snd (sane_wait_for calm [] (at_wait False False new_client))
   \<and> snd (connect calm False False False [] new_client) = Some (VoiceClientError CouldNotConnect)
   \<and> fst (connect calm False False False [] new_client) =
       fst (disconnect calm True (at_wait False False new_client))"
proof -
  note t = connect_handshake_timeout [of new_client calm False False "[]" False]
  have w: "sane_wait_for calm [] (at_wait False False new_client) = (at_wait False False new_client, False)"
    by (rule no_arrivals_timeout)
  have d: "snd (disconnect calm True (at_wait False False new_client)) = None"
    using voice_disconnect_all_return [of calm "at_wait False False new_client"] calm_never_raises
    by (simp add: disconnect_runs)
  from t d new_client_idle calm_never_raises
  show ?thesis by (simp add: w del: sane_wait_for.simps)
qed

text \<open>
  Claim C1 as stated fails: the handshake of the new client times out, the leave request of
  the forced disconnect raises, and \<open>connect\<close> raises the gateway's error, not the
  could-not-connect error.
\<close>

theorem connect_timeout_other_error:
  "\<not> is_connected new_client
   \<and> \<not> snd (sane_wait_for leave_fails [] (at_wait False False new_client))
   \<and> snd (connect leave_fails False False False [] new_client) = Some GatewayError"
proof -
  have d: "snd (disconnect leave_fails True (at_wait False False new_client)) = Some GatewayError"
    using leave_fails_on_leave
    by (simp add: disconnect_runs voice_disconnect_leave_raises raises_def)
  obtain s7 where d7: "disconnect leave_fails True (at_wait False False new_client) = (s7, Some GatewayError)"
    using d by (cases "disconnect leave_fails True (at_wait False False new_client)") auto
  have j: "\<not> gateway_raises leave_fails (ChangeVoiceState (Some (chan_id (channel new_client))) False False)"
    by (rule leave_fails_join)
  have "snd (connect leave_fails False False False [] new_client) = Some GatewayError"
    by (simp add: connect_reaches_wait [OF new_client_idle j] no_arrivals_timeout d7 and_then_def
        del: sane_wait_for.simps)
  then show ?thesis
    using new_client_idle by (simp add: no_arrivals_timeout del: sane_wait_for.simps)
qed

subsection \<open>The endpoint\<close>

lemma normalize_example:
  "normalize_endpoint ''wss://region123.example.com:443'' = ''region123.example.com''"
  by (simp add: normalize_endpoint_def rpartition_def startswith_def)

lemma dropWhile_to_last:
  assumes "sep \<notin> set t"
  shows "dropWhile (\<lambda>c. c \<noteq> sep) (rev t @ sep # rev h) = sep # rev h"
proof -
  have "dropWhile (\<lambda>c. c \<noteq> sep) (rev t @ sep # rev h) = dropWhile (\<lambda>c. c \<noteq> sep) (sep # rev h)"
    by (rule dropWhile_append2) (use assms in auto)
  then show ?thesis by simp
qed

lemma takeWhile_to_last:
  assumes "sep \<notin> set t"
  shows "takeWhile (\<lambda>c. c \<noteq> sep) (rev t @ sep # rev h) = rev t"
proof -
  have "takeWhile (\<lambda>c. c \<noteq> sep) (rev t @ sep # rev h) = rev t @ takeWhile (\<lambda>c. c \<noteq> sep) (sep # rev h)"
    by (rule takeWhile_append2) (use assms in auto)
  then show ?thesis by simp
qed

lemma dropWhile_no_sep:
  assumes "sep \<notin> set s"
  shows "dropWhile (\<lambda>c. c \<noteq> sep) (rev s) = []"
  using assms by (auto simp: dropWhile_eq_Nil_conv)

lemma rpartition_last:
  assumes "sep \<notin> set t"
  shows "rpartition sep (h @ sep # t) = (h, [sep], t)"
  unfolding rpartition_def Let_def
  by (simp only: rev_append rev.simps append_Cons append_Nil append_assoc
      dropWhile_to_last [OF assms] takeWhile_to_last [OF assms] list.case rev_rev_ident)

lemma rpartition_none:
  assumes "sep \<notin> set s"
  shows "rpartition sep s = ([], [], s)"
  unfolding rpartition_def Let_def
  by (simp only: dropWhile_no_sep [OF assms] list.case)

lemma startswith_append:
  assumes "startswith h p"
  shows "startswith (h @ r) p"
proof -
  from assms have e: "take (length p) h = p"
    by (simp add: startswith_def)
  then have "length (take (length p) h) = length p"
    by simp
  then have "length p \<le> length h"
    by simp
  with e show ?thesis
    by (simp add: startswith_def)
qed

lemma rpartition_head_startswith:
  assumes "startswith (fst (rpartition sep s)) p" and "p \<noteq> []"
  shows "startswith s p"
proof (cases "sep \<in> set s")
  case True
  then obtain h t where s: "s = h @ sep # t" and t: "sep \<notin> set t"
    using split_list_last [of sep s] by blast
  from assms(1) have "startswith h p"
    by (simp add: s rpartition_last [OF t])
  then show ?thesis
    by (simp add: s startswith_append)
next
  case False
  with assms show ?thesis
    by (simp add: rpartition_none startswith_def)
qed

text \<open>
  Claim C7, as amended. The endpoint \<open>wss://region123.example.com:443\<close> is normalized to
  \<open>region123.example.com\<close>: the port goes too. An endpoint without the \<open>wss://\<close> prefix
  becomes the part before its last colon: the host of \<open>host:port\<close>, and the empty string
  when it has no colon.
\<close>

theorem normalize_endpoint_strips_port:
  "normalize_endpoint ''wss://region123.example.com:443'' = ''region123.example.com''
   \<and> (\<not> startswith endpoint ''wss://'' \<longrightarrow>
        normalize_endpoint endpoint = fst (rpartition CHR '':'' endpoint))
   \<and> (\<not> startswith (host @ '':'' @ port) ''wss://'' \<and> CHR '':'' \<notin> set port \<longrightarrow>
        normalize_endpoint (host @ '':'' @ port) = host)
   \<and> (CHR '':'' \<notin> set endpoint \<longrightarrow> normalize_endpoint endpoint = [])"
proof -
  have pass: "normalize_endpoint e = fst (rpartition CHR '':'' e)" if "\<not> startswith e ''wss://''" for e
  proof -
    have "\<not> startswith (fst (rpartition CHR '':'' e)) ''wss://''"
      using that rpartition_head_startswith [of "CHR '':''" e "''wss://''"] by auto
    then show ?thesis
      by (simp add: normalize_endpoint_def Let_def)
  qed
  have hostport: "normalize_endpoint (host @ '':'' @ port) = host"
    if "\<not> startswith (host @ '':'' @ port) ''wss://''" and "CHR '':'' \<notin> set port"
    using pass [OF that(1)] rpartition_last [OF that(2), of host] by simp
  have nocolon: "normalize_endpoint endpoint = []" if "CHR '':'' \<notin> set endpoint"
    using that by (simp add: normalize_endpoint_def Let_def rpartition_none startswith_def)
  from pass hostport nocolon normalize_example show ?thesis
    by blast
qed

text \<open>
  Claim C7 as stated fails: the result for \<open>wss://region123.example.com:443\<close> is not
  \<open>region123.example.com:443\<close>.
\<close>

theorem normalize_endpoint_drops_port:
  "normalize_endpoint ''wss://region123.example.com:443'' \<noteq> ''region123.example.com:443''"
  by (simp add: normalize_example)

text \<open>Endpoints without the prefix, with a port and without one.\<close>

theorem normalize_endpoint_strips_port_witness:
  "\<not> startswith ''region123.example.com:443'' ''wss://''
   \<and> normalize_endpoint ''region123.example.com:443'' = ''region123.example.com''
   \<and> normalize_endpoint ''localhost'' = []"
proof -
  note a = normalize_endpoint_strips_port [of "''localhost''" "''region123.example.com''" "''443''"]
  have p: "\<not> startswith ''region123.example.com:443'' ''wss://''"
    by (simp add: startswith_def)
  have q: "CHR '':'' \<notin> set ''443''" "CHR '':'' \<notin> set ''localhost''"
    by simp_all
  from a p q show ?thesis by simp
qed

subsection \<open>on_voice_state_update\<close>

text \<open>
  Claim C8, as amended. \<open>on_voice_state_update\<close> always stores the session id of the
  payload. It changes the current channel only after the handshake (or while potentially
  reconnecting), and only when the payload names a channel the guild has and that is a
  voice or stage channel; during the handshake, and in every other case, the channel stays.
\<close>

theorem on_voice_state_update_session_and_channel:
  "session_id (fst (on_voice_state_update env data s)) = Some (vs_session_id data)
   \<and> channel (fst (on_voice_state_update env data s)) =
       (if \<not> handshaking s \<or> potentially_reconnecting s then
          (case vs_channel_id data of
             None \<Rightarrow> channel s
           | Some cid \<Rightarrow>
               (case get_channel (guild s) cid of
                  None \<Rightarrow> channel s
                | Some ch \<Rightarrow> if is_vocal_guild_channel (chan_kind ch) then ch else channel s))
        else channel s)"
  by (auto simp: on_voice_state_update_def Let_def returns_def log_msg_def
      disconnect_session_channel split: option.splits)

lemma home_guild_channels:
  "get_channel home_guild 11 = Some lounge" "get_channel home_guild 20 = Some general"
  "get_channel home_guild 99 = None"
  by (simp_all add: get_channel_def home_guild_def)

lemma example_clients:
  "guild connected_client = home_guild" "guild handshaking_client = home_guild"
  "channel connected_client = lobby" "channel handshaking_client = lobby"
  "\<not> handshaking connected_client" "handshaking handshaking_client"
  "\<not> potentially_reconnecting handshaking_client"
  "session_id connected_client = Some ''abc''"
  by (simp_all add: connected_client_def handshaking_client_def new_client_def init_def)

lemma example_payloads:
  "vs_channel_id to_lounge = Some 11" "vs_channel_id to_nowhere = Some 99"
  "vs_channel_id to_general = Some 20" "vs_session_id to_lounge = ''xyz''"
  "vs_session_id to_nowhere = ''xyz''" "vs_session_id to_general = ''xyz''"
  by (simp_all add: to_lounge_def to_nowhere_def to_general_def)

text \<open>
  Claim C8 as stated fails: during the handshake a payload that names the lounge (channel
  11) leaves the client in the lobby (channel 10).
\<close>

theorem on_voice_state_update_keeps_channel_in_handshake:
  "handshaking handshaking_client
   \<and> vs_channel_id to_lounge = Some 11
   \<and> get_channel (guild handshaking_client) 11 = Some lounge
   \<and> chan_id (channel (fst (on_voice_state_update calm to_lounge handshaking_client))) = 10"
  by (simp add: on_voice_state_update_def Let_def returns_def log_msg_def
      example_clients example_payloads home_guild_channels lobby_def)

text \<open>After the handshake the same payload moves the client; during it only the session id changes.\<close>

theorem on_voice_state_update_session_and_channel_witness:
  "channel (fst (on_voice_state_update calm to_lounge connected_client)) = lounge
   \<and> session_id (fst (on_voice_state_update calm to_lounge connected_client)) = Some ''xyz''
   \<and> channel (fst (on_voice_state_update calm to_lounge handshaking_client)) = lobby
   \<and> session_id (fst (on_voice_state_update calm to_lounge handshaking_client)) = Some ''xyz''"
proof -
  note a = on_voice_state_update_session_and_channel [of calm to_lounge connected_client]
  note b = on_voice_state_update_session_and_channel [of calm to_lounge handshaking_client]
  have v: "is_vocal_guild_channel (chan_kind lounge)"
    by (simp add: lounge_def)
  from a b v show ?thesis
    by (simp add: example_clients example_payloads home_guild_channels)
qed

text \<open>
  Claim C9. After the handshake, a voice-state update that names a channel the guild does
  not have, or one that is not a voice or stage channel, is logged as a warning and
  ignored. The session id of the payload is stored, as for every voice-state update; the
  channel, the connection flags, both signals, Discrivener, the audio responder, the
  requests sent to the gateway and \<open>is_connected()\<close> are as they were, and the handler
  returns without error.
\<close>

theorem on_voice_state_update_bad_channel:
  assumes "\<not> handshaking s \<or> potentially_reconnecting s"
    and "vs_channel_id data = Some cid"
    and "get_channel (guild s) cid = None
         \<or> (\<exists>ch. get_channel (guild s) cid = Some ch \<and> \<not> is_vocal_guild_channel (chan_kind ch))"
  shows "on_voice_state_update env data s =
           returns (s\<lparr>session_id := Some (vs_session_id data),
                      logged := logged s @
                        [(DEBUG, ''Server-initiated voice state update for Channel ID %s (Guild ID %s)''),
                         (WARNING, if get_channel (guild s) cid = None
                                   then ''Channel ID %s not found in Guild ID %s''
                                   else ''Channel ID %s not a VocalGuildChannel.'')]\<rparr>)
         \<and> snd (on_voice_state_update env data s) = None
         \<and> channel (fst (on_voice_state_update env data s)) = channel s
         \<and> guild (fst (on_voice_state_update env data s)) = guild s
         \<and> handshaking (fst (on_voice_state_update env data s)) = handshaking s
         \<and> potentially_reconnecting (fst (on_voice_state_update env data s)) = potentially_reconnecting s
         \<and> oobabot_voice_connected (fst (on_voice_state_update env data s)) = oobabot_voice_connected s
         \<and> discrivener_connected (fst (on_voice_state_update env data s)) = discrivener_connected s
         \<and> discrivener (fst (on_voice_state_update env data s)) = discrivener s
         \<and> responder (fst (on_voice_state_update env data s)) = responder s
         \<and> voice_state_complete (fst (on_voice_state_update env data s)) = voice_state_complete s
         \<and> voice_server_complete (fst (on_voice_state_update env data s)) = voice_server_complete s
         \<and> gateway_requests (fst (on_voice_state_update env data s)) = gateway_requests s
         \<and> scheduled (fst (on_voice_state_update env data s)) = scheduled s
         \<and> cleanups (fst (on_voice_state_update env data s)) = cleanups s
         \<and> transcript (fst (on_voice_state_update env data s)) = transcript s
         \<and> is_connected (fst (on_voice_state_update env data s)) = is_connected s"
proof -
  have e: "on_voice_state_update env data s =
           returns (s\<lparr>session_id := Some (vs_session_id data),
                      logged := logged s @
                        [(DEBUG, ''Server-initiated voice state update for Channel ID %s (Guild ID %s)''),
                         (WARNING, if get_channel (guild s) cid = None
                                   then ''Channel ID %s not found in Guild ID %s''
                                   else ''Channel ID %s not a VocalGuildChannel.'')]\<rparr>)"
    using assms
    by (auto simp: on_voice_state_update_def Let_def returns_def log_msg_def)
  show ?thesis
    unfolding e by (simp add: returns_def is_connected_conj)
qed

text \<open>An unknown channel, and a text channel.\<close>

theorem on_voice_state_update_bad_channel_witness:
  "snd (on_voice_state_update calm to_nowhere connected_client) = None
   \<and> channel (fst (on_voice_state_update calm to_nowhere connected_client)) = lobby
   \<and> is_connected (fst (on_voice_state_update calm to_nowhere connected_client))
   \<and> snd (on_voice_state_update calm to_general connected_client) = None
   \<and> channel (fst (on_voice_state_update calm to_general connected_client)) = lobby
   \<and> map fst (logged (fst (on_voice_state_update calm to_general connected_client))) = [DEBUG, WARNING]"
proof -
  have h: "\<not> handshaking connected_client \<or> potentially_reconnecting connected_client"
    by (simp add: example_clients)
  have n: "get_channel (guild connected_client) 99 = None
         \<or> (\<exists>ch. get_channel (guild connected_client) 99 = Some ch \<and> \<not> is_vocal_guild_channel (chan_kind ch))"
    by (simp add: example_clients home_guild_channels)
  have g: "get_channel (guild connected_client) 20 = None
         \<or> (\<exists>ch. get_channel (guild connected_client) 20 = Some ch \<and> \<not> is_vocal_guild_channel (chan_kind ch))"
    by (simp add: example_clients home_guild_channels general_def)
  note a = on_voice_state_update_bad_channel [OF h example_payloads(2) n, of calm]
  note b = on_voice_state_update_bad_channel [OF h example_payloads(3) g, of calm]
  have l: "logged connected_client = []"
    by (simp add: connected_client_def new_client_def init_def)
  have c: "is_connected (connected_client\<lparr>session_id := Some x, logged := y\<rparr>)" for x y
    using connected_client_connected by (simp add: is_connected_conj)
  have a1: "on_voice_state_update calm to_nowhere connected_client =
      returns (connected_client\<lparr>session_id := Some (vs_session_id to_nowhere),
        logged := logged connected_client @
          [(DEBUG, ''Server-initiated voice state update for Channel ID %s (Guild ID %s)''),
           (WARNING, if get_channel (guild connected_client) 99 = None
                     then ''Channel ID %s not found in Guild ID %s''
                     else ''Channel ID %s not a VocalGuildChannel.'')]\<rparr>)"
    using a by blast
  have b1: "on_voice_state_update calm to_general connected_client =
      returns (connected_client\<lparr>session_id := Some (vs_session_id to_general),
        logged := logged connected_client @
          [(DEBUG, ''Server-initiated voice state update for Channel ID %s (Guild ID %s)''),
           (WARNING, if get_channel (guild connected_client) 20 = None
                     then ''Channel ID %s not found in Guild ID %s''
                     else ''Channel ID %s not a VocalGuildChannel.'')]\<rparr>)"
    using b by blast
  from l c show ?thesis
    by (simp add: a1 b1 returns_def example_clients)
qed

subsection \<open>The disconnect notification\<close>

text \<open>
  Claim C4. On a \<open>DISCONNECT\<close> message, with an event loop at hand, the handler sets the
  state signal, clears \<open>_discrivener_connected\<close>, so that \<open>is_connected()\<close> is false, and
  hands \<open>disconnect\<close> to the event loop instead of running it. The \<open>disconnect()\<close> handed
  over has \<open>force\<close> false and finds the client not connected: it returns at its guard, and
  nothing of the teardown happens.
\<close>

theorem disconnect_notification_no_teardown:
  assumes "msg_type message = DISCONNECT" and "get_event_loop env = Loop"
  shows "handle_discrivener_output env message s =
           returns (s\<lparr>logged := logged s @ [(DEBUG, ''discrivener messsage: %s'')],
                      voice_state_complete := True, discrivener_connected := False,
                      scheduled := scheduled s @ [CallDisconnect]\<rparr>)
         \<and> \<not> is_connected (fst (handle_discrivener_output env message s))
         \<and> disconnect env' False (fst (handle_discrivener_output env message s)) =
             returns (fst (handle_discrivener_output env message s))"
proof -
  have h: "handle_discrivener_output env message s =
           returns (s\<lparr>logged := logged s @ [(DEBUG, ''discrivener messsage: %s'')],
                      voice_state_complete := True, discrivener_connected := False,
                      scheduled := scheduled s @ [CallDisconnect]\<rparr>)"
    using assms by (simp add: handle_discrivener_output_def Let_def returns_def log_msg_def)
  have n: "\<not> is_connected (fst (handle_discrivener_output env message s))"
    by (simp add: h returns_def is_connected_conj)
  from h n show ?thesis
    by (simp add: disconnect_skips)
qed

text \<open>
  The connected client after the notification and the \<open>disconnect()\<close> handed to the loop:
  no request went to the gateway, Discrivener still runs, \<open>cleanup\<close> never ran, and the
  gateway-side flag is still set.
\<close>

theorem disconnect_notification_no_teardown_witness:
  "is_connected connected_client
   \<and> scheduled (fst (handle_discrivener_output calm went_away connected_client)) = [CallDisconnect]
   \<and> \<not> is_connected (fst (handle_discrivener_output calm went_away connected_client))
   \<and> gateway_requests (fst (disconnect calm False (fst (handle_discrivener_output calm went_away connected_client)))) = []
   \<and> running (discrivener (fst (disconnect calm False (fst (handle_discrivener_output calm went_away connected_client)))))
   \<and> cleanups (fst (disconnect calm False (fst (handle_discrivener_output calm went_away connected_client)))) = 0
   \<and> oobabot_voice_connected (fst (disconnect calm False (fst (handle_discrivener_output calm went_away connected_client))))"
proof -
  have m: "msg_type went_away = DISCONNECT" "get_event_loop calm = Loop"
    by (simp_all add: went_away_def calm_def)
  define h where "h = fst (handle_discrivener_output calm went_away connected_client)"
  note a = disconnect_notification_no_teardown [OF m, of connected_client calm]
  have f: "scheduled connected_client = []" "gateway_requests connected_client = []"
    "running (discrivener connected_client)" "cleanups connected_client = 0"
    "oobabot_voice_connected connected_client"
    by (simp_all add: connected_client_def new_client_def init_def)
  have a1: "scheduled h = [CallDisconnect]" "gateway_requests h = []"
    "running (discrivener h)" "cleanups h = 0" "oobabot_voice_connected h"
    using a f unfolding h_def by (simp_all add: returns_def)
  have a2: "\<not> is_connected h"
    using a unfolding h_def by blast
  have a3: "disconnect calm False h = returns h"
    using a unfolding h_def by blast
  show ?thesis
    unfolding h_def [symmetric]
    using a1 a2 connected_client_connected by (simp add: a3 returns_def)
qed

subsection \<open>A handshake that completes\<close>

text \<open>
  When \<open>connect\<close> reaches the wait and both signals are set before the timeout, it
  returns without error: the client is marked connected on the gateway side, both signals
  are cleared again, and the handshake is over.
\<close>

theorem connect_handshake_completes:
  assumes "\<not> is_connected s"
    and "\<not> gateway_raises env (ChangeVoiceState (Some (chan_id (channel s))) self_deaf self_mute)"
    and "snd (sane_wait_for env arrivals (at_wait self_deaf self_mute s))"
  shows "snd (connect env reconnect self_deaf self_mute arrivals s) = None
         \<and> oobabot_voice_connected (fst (connect env reconnect self_deaf self_mute arrivals s))
         \<and> \<not> voice_state_complete (fst (connect env reconnect self_deaf self_mute arrivals s))
         \<and> \<not> voice_server_complete (fst (connect env reconnect self_deaf self_mute arrivals s))
         \<and> \<not> handshaking (fst (connect env reconnect self_deaf self_mute arrivals s))"
proof -
  obtain s6 where w: "sane_wait_for env arrivals (at_wait self_deaf self_mute s) = (s6, True)"
    using assms(3) by (cases "sane_wait_for env arrivals (at_wait self_deaf self_mute s)") auto
  show ?thesis
    by (simp add: connect_reaches_wait [OF assms(1,2)] w returns_def)
qed

lemma both_orders_complete:
  "snd (sane_wait_for calm [VoiceStateUpdate to_lounge, VoiceServerUpdate server_known]
          (at_wait False False new_client))"
  "snd (sane_wait_for calm [VoiceServerUpdate server_known, VoiceStateUpdate to_lounge]
          (at_wait False False new_client))"
  by (simp_all add: at_wait_def log_msg_def on_voice_state_update_def on_voice_server_update_def
      Let_def returns_def and_then_def discrivener_run_def audio_responder_start_def
      server_known_def to_lounge_def new_client_def init_def)

text \<open>The two signals in either order, on the new client.\<close>

theorem connect_handshake_completes_witness:
  "\<not> is_connected new_client
   \<and> snd (connect calm False False False
            [VoiceStateUpdate to_lounge, VoiceServerUpdate server_known] new_client) = None
   \<and> oobabot_voice_connected (fst (connect calm False False False
            [VoiceStateUpdate to_lounge, VoiceServerUpdate server_known] new_client))
   \<and> snd (connect calm False False False
            [VoiceServerUpdate server_known, VoiceStateUpdate to_lounge] new_client) = None
   \<and> oobabot_voice_connected (fst (connect calm False False False
            [VoiceServerUpdate server_known, VoiceStateUpdate to_lounge] new_client))"
proof -
  have j: "\<not> gateway_raises calm (ChangeVoiceState (Some (chan_id (channel new_client))) False False)"
    by (rule calm_never_raises)
  note a = connect_handshake_completes [OF new_client_idle j both_orders_complete(1), of False]
  note b = connect_handshake_completes [OF new_client_idle j both_orders_complete(2), of False]
  from a b new_client_idle show ?thesis by blast
qed

subsection \<open>on_voice_server_update\<close>

lemma on_voice_server_update_ignored:
  assumes "voice_server_complete s"
  shows "on_voice_server_update env data s =
           returns (s\<lparr>logged := logged s @ [(WARNING, ''Ignoring extraneous voice server update.'')]\<rparr>)"
  using assms by (simp add: on_voice_server_update_def log_msg_def)

lemma on_voice_server_update_waits:
  assumes "\<not> voice_server_complete s" and "su_endpoint data = None \<or> su_token data = None"
  shows "on_voice_server_update env data s =
           returns (s\<lparr>logged := logged s @ [(WARNING,
             ''Awaiting endpoint... This requires waiting. If timeout occurred considering raising the timeout and reconnecting.'')]\<rparr>)"
  using assms by (auto simp: on_voice_server_update_def Let_def log_msg_def)

lemma on_voice_server_update_starts:
  assumes "\<not> voice_server_complete s" and "su_endpoint data = Some ep" and "su_token data = Some tok"
  shows "on_voice_server_update env data s =
           returns (s\<lparr>discrivener := (discrivener s)
                        \<lparr>running := True,
                         run_calls := run_calls (discrivener s) @
                           [\<lparr>run_channel_id = chan_id (channel s), run_endpoint = normalize_endpoint ep,
                             run_guild_id = su_guild_id data, run_session_id = session_id s,
                             run_user_id = user_id s, run_token = tok\<rparr>]\<rparr>,
                      responder := (responder s)\<lparr>responding := True, start_calls := Suc (start_calls (responder s))\<rparr>,
                      voice_server_complete := True\<rparr>)"
  using assms
  by (simp add: on_voice_server_update_def Let_def returns_def and_then_def
      discrivener_run_def audio_responder_start_def)

lemma voice_disconnect_keeps_starts:
  "voice_server_complete (fst (voice_disconnect env s)) = voice_server_complete s"
  "run_calls (discrivener (fst (voice_disconnect env s))) = run_calls (discrivener s)"
  "start_calls (responder (fst (voice_disconnect env s))) = start_calls (responder s)"
  by (simp_all add: voice_disconnect_def Let_def outcome_defs collab_defs)

lemma disconnect_keeps_starts:
  "voice_server_complete (fst (disconnect env force s)) = voice_server_complete s"
  "run_calls (discrivener (fst (disconnect env force s))) = run_calls (discrivener s)"
  "start_calls (responder (fst (disconnect env force s))) = start_calls (responder s)"
  by (cases "force \<or> is_connected s";
      simp add: disconnect_runs disconnect_skips voice_disconnect_keeps_starts cleanup_def returns_def)+

text \<open>No handler clears the server signal, and while it is set none runs Discrivener or starts the responder.\<close>

lemma deliver_keeps_signal:
  assumes "voice_server_complete s"
  shows "voice_server_complete (deliver env e s)
         \<and> run_calls (discrivener (deliver env e s)) = run_calls (discrivener s)
         \<and> start_calls (responder (deliver env e s)) = start_calls (responder s)"
proof (cases e)
  case (VoiceStateUpdate d)
  with assms show ?thesis
    by (auto simp: on_voice_state_update_def Let_def returns_def log_msg_def
        disconnect_keeps_starts split: option.splits)
next
  case (VoiceServerUpdate d)
  with assms show ?thesis
    by (simp add: on_voice_server_update_ignored returns_def)
next
  case (DiscrivenerOutput m)
  with assms show ?thesis
    by (auto simp: handle_discrivener_output_def Let_def returns_def raises_def log_msg_def
        split: event_loop.splits)
qed

lemma deliveries_keep_signal:
  assumes "voice_server_complete s"
  shows "voice_server_complete (deliveries env evs s)
         \<and> run_calls (discrivener (deliveries env evs s)) = run_calls (discrivener s)
         \<and> start_calls (responder (deliveries env evs s)) = start_calls (responder s)"
  using assms
proof (induction evs arbitrary: s)
  case Nil
  then show ?case by simp
next
  case (Cons e es)
  from deliver_keeps_signal [OF Cons.prems, of env e]
  have k: "voice_server_complete (deliver env e s)"
    and r: "run_calls (discrivener (deliver env e s)) = run_calls (discrivener s)"
    and t: "start_calls (responder (deliver env e s)) = start_calls (responder s)"
    by simp_all
  from Cons.IH [OF k] r t show ?case by simp
qed

text \<open>
  Claim C2, as amended. \<open>on_voice_server_update\<close> looks at the server signal as it is when
  the update is delivered. When the signal is set, it logs a warning and changes nothing
  else; and since no handler clears the signal, no further event of the run, in any number
  and of any kind, runs Discrivener or starts the audio responder again. When the signal is
  not set and the endpoint or the token is missing, it logs a warning and returns: the
  signal stays unset and nothing is started. When the signal is not set and both are there,
  it runs Discrivener on the normalized endpoint (with the channel, guild, session, user
  and token), starts the audio responder and sets the signal: over that delivery and all
  the events after it there is exactly one start. The signal is cleared by \<open>connect\<close>
  alone, at the start of an attempt and when the handshake completes; a duplicate delivered
  after that is a first delivery again.
\<close>

theorem on_voice_server_update_first_delivery:
  "(voice_server_complete s \<longrightarrow>
      on_voice_server_update env data s =
        returns (s\<lparr>logged := logged s @ [(WARNING, ''Ignoring extraneous voice server update.'')]\<rparr>))
   \<and> (\<not> voice_server_complete s \<and> (su_endpoint data = None \<or> su_token data = None) \<longrightarrow>
      on_voice_server_update env data s =
        returns (s\<lparr>logged := logged s @ [(WARNING,
          ''Awaiting endpoint... This requires waiting. If timeout occurred considering raising the timeout and reconnecting.'')]\<rparr>))
   \<and> (\<not> voice_server_complete s \<and> su_endpoint data = Some ep \<and> su_token data = Some tok \<longrightarrow>
      on_voice_server_update env data s =
        returns (s\<lparr>discrivener := (discrivener s)
                     \<lparr>running := True,
                      run_calls := run_calls (discrivener s) @
                        [\<lparr>run_channel_id = chan_id (channel s), run_endpoint = normalize_endpoint ep,
                          run_guild_id = su_guild_id data, run_session_id = session_id s,
                          run_user_id = user_id s, run_token = tok\<rparr>]\<rparr>,
                   responder := (responder s)\<lparr>responding := True, start_calls := Suc (start_calls (responder s))\<rparr>,
                   voice_server_complete := True\<rparr>))
   \<and> (voice_server_complete s \<longrightarrow>
        voice_server_complete (deliveries env evs s)
        \<and> run_calls (discrivener (deliveries env evs s)) = run_calls (discrivener s)
        \<and> start_calls (responder (deliveries env evs s)) = start_calls (responder s))
   \<and> (\<not> voice_server_complete s \<and> su_endpoint data = Some ep \<and> su_token data = Some tok \<longrightarrow>
        voice_server_complete (deliveries env (VoiceServerUpdate data # evs) s)
        \<and> run_calls (discrivener (deliveries env (VoiceServerUpdate data # evs) s)) =
            run_calls (discrivener s) @
              [\<lparr>run_channel_id = chan_id (channel s), run_endpoint = normalize_endpoint ep,
                run_guild_id = su_guild_id data, run_session_id = session_id s,
                run_user_id = user_id s, run_token = tok\<rparr>]
        \<and> start_calls (responder (deliveries env (VoiceServerUpdate data # evs) s)) =
            Suc (start_calls (responder s)))
   \<and> normalize_endpoint ''wss://region123.example.com:443'' = ''region123.example.com''"
proof -
  have run: "voice_server_complete (deliveries env (VoiceServerUpdate data # evs) s)
        \<and> run_calls (discrivener (deliveries env (VoiceServerUpdate data # evs) s)) =
            run_calls (discrivener s) @
              [\<lparr>run_channel_id = chan_id (channel s), run_endpoint = normalize_endpoint ep,
                run_guild_id = su_guild_id data, run_session_id = session_id s,
                run_user_id = user_id s, run_token = tok\<rparr>]
        \<and> start_calls (responder (deliveries env (VoiceServerUpdate data # evs) s)) =
            Suc (start_calls (responder s))"
    if u: "\<not> voice_server_complete s" and e: "su_endpoint data = Some ep" and t: "su_token data = Some tok"
  proof -
    let ?s1 = "deliver env (VoiceServerUpdate data) s"
    have k: "voice_server_complete ?s1"
      by (simp add: on_voice_server_update_starts [OF u e t] returns_def)
    have r: "run_calls (discrivener ?s1) =
            run_calls (discrivener s) @
              [\<lparr>run_channel_id = chan_id (channel s), run_endpoint = normalize_endpoint ep,
                run_guild_id = su_guild_id data, run_session_id = session_id s,
                run_user_id = user_id s, run_token = tok\<rparr>]"
      by (simp add: on_voice_server_update_starts [OF u e t] returns_def)
    have c: "start_calls (responder ?s1) = Suc (start_calls (responder s))"
      by (simp add: on_voice_server_update_starts [OF u e t] returns_def)
    from deliveries_keep_signal [OF k, of env evs] r c show ?thesis
      by (simp del: deliver.simps)
  qed
  have c1: "voice_server_complete s \<longrightarrow>
      on_voice_server_update env data s =
        returns (s\<lparr>logged := logged s @ [(WARNING, ''Ignoring extraneous voice server update.'')]\<rparr>)"
    by (intro impI, rule on_voice_server_update_ignored)
  have c2: "\<not> voice_server_complete s \<and> (su_endpoint data = None \<or> su_token data = None) \<longrightarrow>
      on_voice_server_update env data s =
        returns (s\<lparr>logged := logged s @ [(WARNING,
          ''Awaiting endpoint... This requires waiting. If timeout occurred considering raising the timeout and reconnecting.'')]\<rparr>)"
    by (intro impI, elim conjE, rule on_voice_server_update_waits)
  have c3: "\<not> voice_server_complete s \<and> su_endpoint data = Some ep \<and> su_token data = Some tok \<longrightarrow>
      on_voice_server_update env data s =
        returns (s\<lparr>discrivener := (discrivener s)
                     \<lparr>running := True,
                      run_calls := run_calls (discrivener s) @
                        [\<lparr>run_channel_id = chan_id (channel s), run_endpoint = normalize_endpoint ep,
                          run_guild_id = su_guild_id data, run_session_id = session_id s,
                          run_user_id = user_id s, run_token = tok\<rparr>]\<rparr>,
                   responder := (responder s)\<lparr>responding := True, start_calls := Suc (start_calls (responder s))\<rparr>,
                   voice_server_complete := True\<rparr>)"
    by (intro impI, elim conjE, rule on_voice_server_update_starts)
  have c4: "voice_server_complete s \<longrightarrow>
        voice_server_complete (deliveries env evs s)
        \<and> run_calls (discrivener (deliveries env evs s)) = run_calls (discrivener s)
        \<and> start_calls (responder (deliveries env evs s)) = start_calls (responder s)"
    by (intro impI, rule deliveries_keep_signal)
  have c5: "\<not> voice_server_complete s \<and> su_endpoint data = Some ep \<and> su_token data = Some tok \<longrightarrow>
        voice_server_complete (deliveries env (VoiceServerUpdate data # evs) s)
        \<and> run_calls (discrivener (deliveries env (VoiceServerUpdate data # evs) s)) =
            run_calls (discrivener s) @
              [\<lparr>run_channel_id = chan_id (channel s), run_endpoint = normalize_endpoint ep,
                run_guild_id = su_guild_id data, run_session_id = session_id s,
                run_user_id = user_id s, run_token = tok\<rparr>]
        \<and> start_calls (responder (deliveries env (VoiceServerUpdate data # evs) s)) =
            Suc (start_calls (responder s))"
    by (intro impI, elim conjE, rule run)
  show ?thesis
    by (intro conjI c1 c2 c3 c4 c5 normalize_example)
qed

text \<open>
  Claim C2 as stated fails: the handshake of the new client completes with one run of
  Discrivener, \<open>connect\<close> clears the server signal, and the same server update delivered
  once more runs Discrivener a second time.
\<close>

theorem duplicate_after_handshake_starts_again:
  "snd (connect calm False False False
          [VoiceStateUpdate to_lounge, VoiceServerUpdate server_known] new_client) = None
   \<and> length (run_calls (discrivener (fst (connect calm False False False
          [VoiceStateUpdate to_lounge, VoiceServerUpdate server_known] new_client)))) = 1
   \<and> length (run_calls (discrivener (fst (on_voice_server_update calm server_known
        (fst (connect calm False False False
          [VoiceStateUpdate to_lounge, VoiceServerUpdate server_known] new_client)))))) = 2"
proof -
  define w where "w = sane_wait_for calm [VoiceStateUpdate to_lounge, VoiceServerUpdate server_known]
          (at_wait False False new_client)"
  define c where "c = connect calm False False False
          [VoiceStateUpdate to_lounge, VoiceServerUpdate server_known] new_client"
  have ws: "snd w"
    unfolding w_def by (rule both_orders_complete(1))
  have wr: "length (run_calls (discrivener (fst w))) = 1"
    unfolding w_def
    by (simp add: at_wait_def log_msg_def on_voice_state_update_def on_voice_server_update_def
        Let_def returns_def and_then_def discrivener_run_def audio_responder_start_def
        server_known_def to_lounge_def new_client_def init_def)
  obtain s6 where w6: "w = (s6, True)"
    using ws by (cases w) auto
  have j: "\<not> gateway_raises calm (ChangeVoiceState (Some (chan_id (channel new_client))) False False)"
    by (rule calm_never_raises)
  have ce: "c = returns (s6\<lparr>oobabot_voice_connected := True, voice_state_complete := False,
                      voice_server_complete := False,
                      logged := logged s6 @ [(INFO, ''Voice handshake complete.'')],
                      handshaking := False\<rparr>)"
    unfolding c_def
    using w6 [unfolded w_def]
    by (simp add: connect_reaches_wait [OF new_client_idle j] del: sane_wait_for.simps)
  have c1: "snd c = None" "\<not> voice_server_complete (fst c)"
    "length (run_calls (discrivener (fst c))) = 1"
    using wr w6 by (simp_all add: ce returns_def)
  have su: "su_endpoint server_known = Some ''wss://region123.example.com:443''"
    "su_token server_known = Some ''tok''"
    by (simp_all add: server_known_def)
  have "length (run_calls (discrivener (fst (on_voice_server_update calm server_known (fst c))))) = 2"
    using c1(3) by (simp add: on_voice_server_update_starts [OF c1(2) su] returns_def)
  with c1 show ?thesis
    unfolding c_def by simp
qed

text \<open>
  A first delivery, a delivery without token, a delivery on a set signal, and a run of four
  events after the first delivery, two of them duplicates.
\<close>

theorem on_voice_server_update_first_delivery_witness:
  "voice_server_complete (fst (on_voice_server_update calm server_known new_client))
   \<and> map run_endpoint (run_calls (discrivener (fst (on_voice_server_update calm server_known new_client))))
       = [''region123.example.com'']
   \<and> responding (responder (fst (on_voice_server_update calm server_known new_client)))
   \<and> \<not> voice_server_complete (fst (on_voice_server_update calm token_missing new_client))
   \<and> run_calls (discrivener (fst (on_voice_server_update calm token_missing new_client))) = []
   \<and> run_calls (discrivener (fst (on_voice_server_update calm server_known
        (new_client\<lparr>voice_server_complete := True\<rparr>)))) = []
   \<and> length (run_calls (discrivener (deliveries calm
        [VoiceServerUpdate server_known, VoiceServerUpdate server_known, VoiceStateUpdate to_lounge,
         DiscrivenerOutput went_away, VoiceServerUpdate server_known] new_client))) = 1
   \<and> start_calls (responder (deliveries calm
        [VoiceServerUpdate server_known, VoiceServerUpdate server_known, VoiceStateUpdate to_lounge,
         DiscrivenerOutput went_away, VoiceServerUpdate server_known] new_client)) = 1"
proof -
  note a = on_voice_server_update_first_delivery
    [of new_client calm server_known "''wss://region123.example.com:443''" "''tok''"
        "[VoiceServerUpdate server_known, VoiceStateUpdate to_lounge,
          DiscrivenerOutput went_away, VoiceServerUpdate server_known]"]
  note b = on_voice_server_update_first_delivery [of new_client calm token_missing]
  note c = on_voice_server_update_first_delivery
    [of "new_client\<lparr>voice_server_complete := True\<rparr>" calm server_known]
  have f: "\<not> voice_server_complete new_client" "run_calls (discrivener new_client) = []"
    "start_calls (responder new_client) = 0"
    "su_endpoint server_known = Some ''wss://region123.example.com:443''"
    "su_token server_known = Some ''tok''" "su_token token_missing = None"
    by (simp_all add: example_defs)
  have a1: "on_voice_server_update calm server_known new_client =
        returns (new_client\<lparr>discrivener := (discrivener new_client)
                     \<lparr>running := True,
                      run_calls := run_calls (discrivener new_client) @
                        [\<lparr>run_channel_id = chan_id (channel new_client),
                          run_endpoint = normalize_endpoint ''wss://region123.example.com:443'',
                          run_guild_id = su_guild_id server_known, run_session_id = session_id new_client,
                          run_user_id = user_id new_client, run_token = ''tok''\<rparr>]\<rparr>,
                   responder := (responder new_client)\<lparr>responding := True,
                      start_calls := Suc (start_calls (responder new_client))\<rparr>,
                   voice_server_complete := True\<rparr>)"
    using a f by blast
  have a2: "length (run_calls (discrivener (deliveries calm
        (VoiceServerUpdate server_known # [VoiceServerUpdate server_known, VoiceStateUpdate to_lounge,
         DiscrivenerOutput went_away, VoiceServerUpdate server_known]) new_client))) = 1"
    "start_calls (responder (deliveries calm
        (VoiceServerUpdate server_known # [VoiceServerUpdate server_known, VoiceStateUpdate to_lounge,
         DiscrivenerOutput went_away, VoiceServerUpdate server_known]) new_client)) = 1"
    using a f by (simp_all del: deliveries.simps deliver.simps)
  have b1: "on_voice_server_update calm token_missing new_client =
        returns (new_client\<lparr>logged := logged new_client @ [(WARNING,
          ''Awaiting endpoint... This requires waiting. If timeout occurred considering raising the timeout and reconnecting.'')]\<rparr>)"
    using b f by blast
  have c1: "on_voice_server_update calm server_known (new_client\<lparr>voice_server_complete := True\<rparr>) =
        returns (new_client\<lparr>voice_server_complete := True,
          logged := logged (new_client\<lparr>voice_server_complete := True\<rparr>) @
            [(WARNING, ''Ignoring extraneous voice server update.'')]\<rparr>)"
    using c by simp
  from a2 f show ?thesis
    by (simp add: a1 b1 c1 returns_def normalize_example del: deliveries.simps)
qed

end
